theory Spec2Isabelle
  imports Complex_Main
begin

section \<open>Python values and exceptions\<close>

text \<open>
  The exceptions that the modelled code can meet. \<open>KeyboardInterrupt\<close> and
  \<open>CancelledError\<close> derive from \<open>BaseException\<close> only; every other one is an
  \<open>Exception\<close>, which is what \<open>except Exception\<close> catches.
\<close>

datatype exn =
    JSONDecodeError
  | UnicodeDecodeError
  | KeyError string
  | TypeError
  | AttributeError
  | IndexError
  | ValueError
  | OverflowError
  | IntegrityError
  | OperationalError
  | AMQPConnectionError
  | RuntimeError string
  | KeyboardInterrupt
  | CancelledError

fun is_Exception :: "exn \<Rightarrow> bool" where
  "is_Exception KeyboardInterrupt = False"
| "is_Exception CancelledError = False"
| "is_Exception _ = True"

text \<open>
  What \<open>json.loads\<close> returns: \<open>None\<close>, a bool, a number, a string, a list, or a dict
  (an association list whose keys are distinct, read with \<open>map_of\<close>).
\<close>

datatype json =
    JNull
  | JBool bool
  | JNum real
  | JStr string
  | JArr "json list"
  | JObj "(string \<times> json) list"

fun is_substring :: "string \<Rightarrow> string \<Rightarrow> bool" where
  "is_substring k [] = (k = [])"
| "is_substring k (c # s) = (take (length k) (c # s) = k \<or> is_substring k s)"

text \<open>\<open>k in data\<close> for a string \<open>k\<close>: key membership on a dict, element equality on a
  list, substring on a string, \<open>TypeError\<close> on anything else.\<close>

fun py_contains :: "json \<Rightarrow> string \<Rightarrow> exn + bool" where
  "py_contains (JObj kvs) k = Inr (k \<in> set (map fst kvs))"
| "py_contains (JArr xs) k = Inr (JStr k \<in> set xs)"
| "py_contains (JStr s) k = Inr (is_substring k s)"
| "py_contains _ k = Inl TypeError"

text \<open>\<open>all(k in data for k in ks)\<close>: the generator stops at the first false member.\<close>

fun py_all_in :: "string list \<Rightarrow> json \<Rightarrow> exn + bool" where
  "py_all_in [] data = Inr True"
| "py_all_in (k # ks) data =
     (case py_contains data k of
        Inl e \<Rightarrow> Inl e
      | Inr False \<Rightarrow> Inr False
      | Inr True \<Rightarrow> py_all_in ks data)"

text \<open>\<open>data[k]\<close> for a string \<open>k\<close>.\<close>

fun py_getitem :: "json \<Rightarrow> string \<Rightarrow> exn + json" where
  "py_getitem (JObj kvs) k = (case map_of kvs k of None \<Rightarrow> Inl (KeyError k) | Some v \<Rightarrow> Inr v)"
| "py_getitem _ k = Inl TypeError"

text \<open>\<open>data.get(k, default)\<close>; only a dict has the method.\<close>

fun py_get :: "json \<Rightarrow> string \<Rightarrow> json \<Rightarrow> exn + json" where
  "py_get (JObj kvs) k dflt = Inr (case map_of kvs k of None \<Rightarrow> dflt | Some v \<Rightarrow> v)"
| "py_get _ k dflt = Inl AttributeError"

text \<open>Sequencing of calls that may raise.\<close>

definition and_then :: "exn + 'a \<Rightarrow> ('a \<Rightarrow> exn + 'b) \<Rightarrow> exn + 'b" where
  "and_then r f = (case r of Inl e \<Rightarrow> Inl e | Inr x \<Rightarrow> f x)"

section \<open>The Persistence Consumer (\<open>src/services/persistence_service.py\<close>)\<close>

subsection \<open>Store\<close>

text \<open>One row of \<open>alpha_opportunities\<close>, with the columns that \<open>on_message\<close> fills.\<close>

record row =
  row_id :: json
  row_scout_name :: json
  row_signal_type :: json
  row_symbol :: json
  row_confidence :: json
  row_data :: json
  row_timestamp :: json
  row_expires_at :: json

text \<open>
  \<open>insert(self.opportunities_table).values(id=data['id'], ...)\<close>: the keyword arguments
  are evaluated in the order written, so the first missing key raises \<open>KeyError\<close>;
  \<open>expires_at\<close> is read with \<open>data.get\<close> and is \<open>None\<close> when absent.
\<close>

definition build_insert :: "json \<Rightarrow> exn + row" where
  "build_insert data =
     and_then (py_getitem data ''id'') (\<lambda>v_id.
     and_then (py_getitem data ''scout_name'') (\<lambda>v_scout.
     and_then (py_getitem data ''signal_type'') (\<lambda>v_type.
     and_then (py_getitem data ''symbol'') (\<lambda>v_symbol.
     and_then (py_getitem data ''confidence'') (\<lambda>v_conf.
     and_then (py_getitem data ''data'') (\<lambda>v_data.
     and_then (py_getitem data ''timestamp'') (\<lambda>v_ts.
     and_then (py_get data ''expires_at'' JNull) (\<lambda>v_exp.
       Inr \<lparr>row_id = v_id, row_scout_name = v_scout, row_signal_type = v_type,
            row_symbol = v_symbol, row_confidence = v_conf, row_data = v_data,
            row_timestamp = v_ts, row_expires_at = v_exp\<rparr>))))))))"

text \<open>
  What the storage layer does while one message is handled: nothing wrong, or an
  exception out of \<open>db_engine.connect()\<close>, \<open>conn.execute(stmt)\<close> or \<open>conn.commit()\<close>.
\<close>

datatype db_fault = NoFault | ConnectFails exn | ExecuteFails exn | CommitFails exn

text \<open>
  The statement is a plain \<open>INSERT\<close> (\<open>sqlalchemy.insert\<close>, no conflict clause). The
  table is declared in \<open>src/core/database.py\<close>, which is not among the sources, so
  whether \<open>id\<close> carries a unique key is the parameter \<open>id_unique\<close>: with the key a
  second row of the same id raises \<open>IntegrityError\<close>, without it the row is added.
  A failed connect, execute or commit stores nothing.
\<close>

fun db_insert :: "bool \<Rightarrow> db_fault \<Rightarrow> row list \<Rightarrow> row \<Rightarrow> exn + row list" where
  "db_insert id_unique (ConnectFails e) tbl r = Inl e"
| "db_insert id_unique (ExecuteFails e) tbl r = Inl e"
| "db_insert id_unique NoFault tbl r =
     (if id_unique \<and> row_id r \<in> set (map row_id tbl) then Inl IntegrityError
      else Inr (tbl @ [r]))"
| "db_insert id_unique (CommitFails e) tbl r =
     (if id_unique \<and> row_id r \<in> set (map row_id tbl) then Inl IntegrityError
      else Inl e)"

subsection \<open>Messages and consumer state\<close>

text \<open>
  The library functions \<open>bytes.decode\<close> and \<open>json.loads\<close> (\<open>None\<close> where they raise
  \<open>UnicodeDecodeError\<close> and \<open>JSONDecodeError\<close>), and the table's key constraint.
\<close>

record deployment =
  utf8_decode :: "string \<Rightarrow> string option"
  json_loads :: "string \<Rightarrow> json option"
  id_unique :: bool

text \<open>A delivery: the broker's delivery tag, the body bytes, and what the storage layer
  does while this delivery is handled.\<close>

record delivery =
  tag :: nat
  body :: string
  fault :: db_fault

datatype disposition = Ack | Reject

datatype level = DEBUG | INFO | WARNING | ERROR | CRITICAL

record consumer_state =
  table :: "row list"
  acks :: "(nat \<times> disposition) list"
  logs :: "level list"
  sleeps :: "nat list"
  connects :: nat

definition required_fields :: "string list" where
  "required_fields = [''id'', ''scout_name'', ''symbol'', ''timestamp'']"

subsection \<open>\<open>PersistenceService.on_message\<close>\<close>

text \<open>The body of the \<open>try\<close>: the exception raised, or the new table and the log line.\<close>

definition try_block :: "deployment \<Rightarrow> delivery \<Rightarrow> row list \<Rightarrow> exn + (row list \<times> level list)" where
  "try_block dep d tbl =
     (case utf8_decode dep (body d) of
        None \<Rightarrow> Inl UnicodeDecodeError
      | Some s \<Rightarrow>
     (case json_loads dep s of
        None \<Rightarrow> Inl JSONDecodeError
      | Some data \<Rightarrow>
     (case py_all_in required_fields data of
        Inl e \<Rightarrow> Inl e
      | Inr False \<Rightarrow> Inr (tbl, [WARNING])
      | Inr True \<Rightarrow>
     (case build_insert data of
        Inl e \<Rightarrow> Inl e
      | Inr stmt \<Rightarrow>
     (case db_insert (id_unique dep) (fault d) tbl stmt of
        Inl e \<Rightarrow> Inl e
      | Inr tbl' \<Rightarrow> Inr (tbl', [DEBUG]))))))"

text \<open>
  The two handlers. \<open>except json.JSONDecodeError\<close> decodes the body again for its log
  line; \<open>except Exception\<close> logs and passes. Anything else leaves the \<open>try\<close> statement.
\<close>

definition handlers :: "deployment \<Rightarrow> delivery \<Rightarrow> row list \<Rightarrow> exn option \<times> row list \<times> level list" where
  "handlers dep d tbl =
     (case try_block dep d tbl of
        Inr (tbl', lg) \<Rightarrow> (None, tbl', lg)
      | Inl e \<Rightarrow>
          if e = JSONDecodeError then
            (case utf8_decode dep (body d) of
               None \<Rightarrow> (Some UnicodeDecodeError, tbl, [])
             | Some s \<Rightarrow> (None, tbl, [ERROR]))
          else if is_Exception e then (None, tbl, [ERROR])
          else (Some e, tbl, []))"

text \<open>
  \<open>async with message.process()\<close>: the message is acknowledged when the block ends
  without an exception, and rejected (no requeue) when one leaves it, which then
  propagates.
\<close>

definition on_message :: "deployment \<Rightarrow> delivery \<Rightarrow> consumer_state \<Rightarrow> exn option \<times> consumer_state" where
  "on_message dep d st =
     (case handlers dep d (table st) of
        (None, tbl', lg) \<Rightarrow>
          (None, st\<lparr>table := tbl', acks := acks st @ [(tag d, Ack)], logs := logs st @ lg\<rparr>)
      | (Some e, tbl', lg) \<Rightarrow>
          (Some e, st\<lparr>table := tbl', acks := acks st @ [(tag d, Reject)], logs := logs st @ lg\<rparr>))"

text \<open>\<open>async for message in queue_iter: await self.on_message(message)\<close>.\<close>

fun consume :: "deployment \<Rightarrow> delivery list \<Rightarrow> consumer_state \<Rightarrow> exn option \<times> consumer_state" where
  "consume dep [] st = (None, st)"
| "consume dep (d # ds) st =
     (case on_message dep d st of
        (Some e, st') \<Rightarrow> (Some e, st')
      | (None, st') \<Rightarrow> consume dep ds st')"

subsection \<open>\<open>PersistenceService.run\<close>\<close>







section \<open>The scout runners (\<open>src/scouts/*_runner.py\<close>)\<close>

text \<open>
  \<open>main\<close> has the same shape in \<open>market_runner\<close>, \<open>defi_runner\<close>, \<open>chain_runner\<close>,
  \<open>contract_runner\<close> and \<open>sentiment_runner\<close>; they differ in the scout class and in the
  default interval. One pass through the loop body either completes, or one of its three
  awaited calls raises.
\<close>

datatype 'o iteration =
    ScanRaises exn
  | PublishRaises "'o list" exn
  | SleepRaises "'o list" exn
  | Completes "'o list"

datatype 'o event = Initialize | Scan | Publish "'o list" | Sleep int | LogInfo | Cleanup

text \<open>The \<open>while True\<close> loop against a finite prefix of iterations: the exception that
  leaves the loop (\<open>None\<close> while it is still going) and the calls made.\<close>

fun scan_loop :: "int \<Rightarrow> 'o iteration list \<Rightarrow> exn option \<times> 'o event list" where
  "scan_loop n [] = (None, [])"
| "scan_loop n (ScanRaises e # its) = (Some e, [Scan])"
| "scan_loop n (PublishRaises opps e # its) = (Some e, [Scan, Publish opps])"
| "scan_loop n (SleepRaises opps e # its) = (Some e, [Scan, Publish opps, Sleep n])"
| "scan_loop n (Completes opps # its) =
     (case scan_loop n its of (r, tr) \<Rightarrow> (r, [Scan, Publish opps, Sleep n] @ tr))"

datatype outcome = Looping | Returned | Raised exn

record runner_env =
  scan_interval :: int
  initialize_raises :: "exn option"
  cleanup_raises :: "exn option"

text \<open>
  \<open>await scout.initialize()\<close> stands before the \<open>try\<close>. \<open>except KeyboardInterrupt\<close> logs;
  \<open>finally\<close> awaits \<open>scout.cleanup()\<close>, after which a pending exception goes on unless
  \<open>cleanup\<close> raised one of its own.
\<close>

definition main :: "runner_env \<Rightarrow> 'o iteration list \<Rightarrow> outcome \<times> 'o event list" where
  "main env its =
     (case initialize_raises env of
        Some e \<Rightarrow> (Raised e, [Initialize])
      | None \<Rightarrow>
          (case scan_loop (scan_interval env) its of
             (None, tr) \<Rightarrow> (Looping, Initialize # tr)
           | (Some e, tr) \<Rightarrow>
               (let tr' = Initialize # tr @ (if e = KeyboardInterrupt then [LogInfo] else []) @ [Cleanup]
                in case cleanup_raises env of
                     Some c \<Rightarrow> (Raised c, tr')
                   | None \<Rightarrow> if e = KeyboardInterrupt then (Returned, tr') else (Raised e, tr'))))"

section \<open>\<open>ContractScout\<close> (\<open>src/scouts/contract_runner.py\<close>)\<close>

text \<open>Truth value of a decoded JSON value, \<open>float(x)\<close> and \<open>x[0]\<close>. Floats are read as
  reals. \<open>float\<close> of a number is the library's conversion to a double, which rounds and
  raises \<open>OverflowError\<close> on an integer beyond the double range; \<open>float\<close> of a string
  is the library's parser, which raises \<open>ValueError\<close>. Both are parameters, \<open>None\<close> where
  they raise.\<close>

fun py_truthy :: "json \<Rightarrow> bool" where
  "py_truthy JNull = False"
| "py_truthy (JBool b) = b"
| "py_truthy (JNum r) = (r \<noteq> 0)"
| "py_truthy (JStr s) = (s \<noteq> [])"
| "py_truthy (JArr xs) = (xs \<noteq> [])"
| "py_truthy (JObj kvs) = (kvs \<noteq> [])"

fun py_float :: "(real \<Rightarrow> real option) \<Rightarrow> (string \<Rightarrow> real option) \<Rightarrow> json \<Rightarrow> exn + real" where
  "py_float q p (JNum r) = (case q r of None \<Rightarrow> Inl OverflowError | Some x \<Rightarrow> Inr x)"
| "py_float q p (JBool b) = Inr (if b then 1 else 0)"
| "py_float q p (JStr s) = (case p s of None \<Rightarrow> Inl ValueError | Some x \<Rightarrow> Inr x)"
| "py_float q p _ = Inl TypeError"

fun py_first :: "json \<Rightarrow> exn + json" where
  "py_first (JArr []) = Inl IndexError"
| "py_first (JArr (v # vs)) = Inr v"
| "py_first (JStr []) = Inl IndexError"
| "py_first (JStr (c # cs)) = Inr (JStr [c])"
| "py_first (JObj kvs) = Inl (KeyError ''0'')"
| "py_first _ = Inl TypeError"

text \<open>
  The scout after \<open>_initialize\<close>. \<open>goplus_response\<close> and \<open>etherscan_response\<close> are what
  \<open>session.get(...)\<close> followed by \<open>resp.json()\<close> gives for an address. \<open>factory\<close> is
  \<open>BaseScout.create_opportunity\<close> and \<open>truthy\<close> the truth value of the signal object it
  returns; \<open>src/scouts/base_scout.py\<close> is not among the sources, so both are parameters.
\<close>

record 's contract_scout =
  addresses :: "string list"
  chain :: string
  etherscan_key :: string
  goplus_response :: "string \<Rightarrow> exn + json"
  etherscan_response :: "string \<Rightarrow> exn + json"
  float_of_num :: "real \<Rightarrow> real option"
  float_of_str :: "string \<Rightarrow> real option"
  factory :: "string \<Rightarrow> string \<Rightarrow> real \<Rightarrow> json \<Rightarrow> nat \<Rightarrow> exn + 's"
  truthy :: "'s \<Rightarrow> bool"

definition fetch_goplus :: "'s contract_scout \<Rightarrow> string \<Rightarrow> exn + json" where
  "fetch_goplus sc address =
     and_then (goplus_response sc address) (\<lambda>resp.
     and_then (py_get resp ''result'' (JObj [])) (\<lambda>res.
       py_get res address (JObj [])))"

definition fetch_etherscan_source :: "'s contract_scout \<Rightarrow> string \<Rightarrow> exn + json" where
  "fetch_etherscan_source sc address =
     (if etherscan_key sc = [] then Inr (JObj [])
      else
        and_then (etherscan_response sc address) (\<lambda>resp.
        and_then (py_get resp ''status'' JNull) (\<lambda>st.
          if st = JStr ''1'' then and_then (py_getitem resp ''result'') py_first
          else Inr (JObj []))))"

text \<open>\<open>asyncio.gather(goplus_task, etherscan_task, return_exceptions=False)\<close>: both results,
  or an exception of one of the tasks.\<close>

definition gather2 :: "exn + 'a \<Rightarrow> exn + 'b \<Rightarrow> exn + ('a \<times> 'b)" where
  "gather2 a b = and_then a (\<lambda>x. and_then b (\<lambda>y. Inr (x, y)))"

text \<open>The body of the \<open>try\<close> in \<open>analyze_address\<close>.\<close>

definition analyze_body :: "'s contract_scout \<Rightarrow> string \<Rightarrow> exn + 's option" where
  "analyze_body sc address =
     and_then (gather2 (fetch_goplus sc address) (fetch_etherscan_source sc address))
       (\<lambda>(goplus, etherscan).
     if \<not> py_truthy goplus then Inr None
     else
     and_then (py_get goplus ''token_security'' (JObj [])) (\<lambda>token_security.
     and_then (py_get token_security ''total_score'' (JNum 100)) (\<lambda>total_score.
     and_then (py_float (float_of_num sc) (float_of_str sc) total_score) (\<lambda>risk_score.
     let confidence = max 0.1 ((100 - risk_score) / 100);
         high_risk = (risk_score > 60)
     in
     and_then (if py_truthy etherscan
               then and_then (py_get etherscan ''SourceCode'' JNull) (\<lambda>src. Inr (py_truthy src))
               else Inr False) (\<lambda>verified.
     and_then (if py_truthy etherscan then py_get etherscan ''ContractCreator'' JNull
               else Inr JNull) (\<lambda>creator.
     let signal_type = (if high_risk then ''high_risk_contract'' else ''low_risk_contract'')
     in
     and_then (factory sc signal_type address confidence
                 (JObj [(''goplus'', goplus), (''verified'', JBool verified),
                        (''creator'', creator), (''chain'', JStr (chain sc))]) 60)
       (\<lambda>opp. Inr (Some opp))))))))"

text \<open>\<open>except Exception\<close>: log and return \<open>None\<close>.\<close>

definition analyze_address :: "'s contract_scout \<Rightarrow> string \<Rightarrow> exn + 's option" where
  "analyze_address sc address =
     (case analyze_body sc address of
        Inl e \<Rightarrow> if is_Exception e then Inr None else Inl e
      | Inr r \<Rightarrow> Inr r)"




section \<open>The signal factory\<close>

text \<open>Modelled from the spec: \<open>OpportunitySignal\<close> is declared in
  \<open>src/scouts/base_scout.py\<close>, which is not among the sources; the fields are those of
  the spec's data model, with times in seconds.\<close>

record OpportunitySignal =
  signal_id :: string
  scout_name :: string
  signal_type :: string
  symbol :: string
  confidence :: real
  data :: json
  timestamp :: real
  expires_at :: "real option"

text \<open>Modelled from the spec: what the factory stamps on a signal, a fresh id, the
  producing scout's name and the time of creation.\<close>

record stamp =
  fresh_id :: string
  producer :: string
  created :: real

text \<open>Modelled from the spec: \<open>BaseScout.create_opportunity\<close> is defined in
  \<open>src/scouts/base_scout.py\<close>, which is not among the sources. The spec has it stamp
  id, timestamp and expiry (the requested minutes after the timestamp) and clamp the
  confidence to the interval from 0 to 1.\<close>

definition create_opportunity ::
  "stamp \<Rightarrow> string \<Rightarrow> string \<Rightarrow> real \<Rightarrow> json \<Rightarrow> nat option \<Rightarrow> OpportunitySignal" where
  "create_opportunity st sig_type subject conf payload expires_in_minutes =
     \<lparr>signal_id = fresh_id st, scout_name = producer st, signal_type = sig_type,
      symbol = subject, confidence = max 0 (min 1 conf), data = payload,
      timestamp = created st,
      expires_at = map_option (\<lambda>m. created st + 60 * real m) expires_in_minutes\<rparr>"

section \<open>Vocabulary of the properties and example inputs\<close>

text \<open>A payload has a field when it is a dict with that key.\<close>

definition has_field :: "json \<Rightarrow> string \<Rightarrow> bool" where
  "has_field payload k = (case payload of JObj kvs \<Rightarrow> k \<in> set (map fst kvs) | _ \<Rightarrow> False)"

text \<open>A body is not valid JSON when its bytes do not decode, or decode to a text that
  \<open>json.loads\<close> does not parse.\<close>

definition not_valid_json :: "deployment \<Rightarrow> string \<Rightarrow> bool" where
  "not_valid_json dep bs =
     (case utf8_decode dep bs of None \<Rightarrow> True | Some s \<Rightarrow> json_loads dep s = None)"

text \<open>\<open>bytes.decode\<close> on the bodies of the examples: on ASCII bytes UTF-8 decoding is the
  identity, and the single byte \<open>0xFF\<close> is not UTF-8.\<close>

fun is_ascii :: "string \<Rightarrow> bool" where
  "is_ascii [] = True"
| "is_ascii (c # cs) = ((of_char c :: nat) < 128 \<and> is_ascii cs)"

definition ascii_decode :: "string \<Rightarrow> string option" where
  "ascii_decode bs = (if is_ascii bs then Some bs else None)"

text \<open>Three message bodies and the values \<open>json.loads\<close> gives for them: a complete
  signal, one without \<open>symbol\<close>, and one with the four validated fields only.\<close>

definition whale_body :: string where
  \<open>whale_body = ''{"id": "a1", "scout_name": "ChainScout", "signal_type": "whale_movement", "symbol": "BSC", "confidence": 0.5, "data": {"chain": "BSC"}, "timestamp": "2024-01-01T00:00:00"}''\<close>

definition whale_json :: json where
  "whale_json = JObj [(''id'', JStr ''a1''), (''scout_name'', JStr ''ChainScout''),
     (''signal_type'', JStr ''whale_movement''), (''symbol'', JStr ''BSC''),
     (''confidence'', JNum 0.5), (''data'', JObj [(''chain'', JStr ''BSC'')]),
     (''timestamp'', JStr ''2024-01-01T00:00:00'')]"

definition whale_row :: row where
  "whale_row = \<lparr>row_id = JStr ''a1'', row_scout_name = JStr ''ChainScout'',
     row_signal_type = JStr ''whale_movement'', row_symbol = JStr ''BSC'',
     row_confidence = JNum 0.5, row_data = JObj [(''chain'', JStr ''BSC'')],
     row_timestamp = JStr ''2024-01-01T00:00:00'', row_expires_at = JNull\<rparr>"

definition no_symbol_body :: string where
  \<open>no_symbol_body = ''{"id": "a2", "scout_name": "ChainScout", "timestamp": "2024-01-01T00:00:00"}''\<close>

definition no_symbol_json :: json where
  "no_symbol_json = JObj [(''id'', JStr ''a2''), (''scout_name'', JStr ''ChainScout''),
     (''timestamp'', JStr ''2024-01-01T00:00:00'')]"

definition no_type_body :: string where
  \<open>no_type_body = ''{"id": "a3", "scout_name": "ChainScout", "symbol": "BSC", "timestamp": "2024-01-01T00:00:00"}''\<close>

definition no_type_json :: json where
  "no_type_json = JObj [(''id'', JStr ''a3''), (''scout_name'', JStr ''ChainScout''),
     (''symbol'', JStr ''BSC''), (''timestamp'', JStr ''2024-01-01T00:00:00'')]"

text \<open>A body that is not UTF-8, and \<open>json.loads\<close> on the three bodies above; the other
  text used in the examples (\<open>not json\<close>) is not JSON.\<close>

definition bad_utf8_body :: string where
  "bad_utf8_body = [CHR 0xFF]"

definition example_loads :: "string \<Rightarrow> json option" where
  "example_loads s =
     (if s = whale_body then Some whale_json
      else if s = no_symbol_body then Some no_symbol_json
      else if s = no_type_body then Some no_type_json
      else None)"

definition example_deployment :: deployment where
  "example_deployment = \<lparr>utf8_decode = ascii_decode, json_loads = example_loads, id_unique = True\<rparr>"

definition idle :: consumer_state where
  "idle = \<lparr>table = [], acks = [], logs = [], sleeps = [], connects = 0\<rparr>"


text \<open>A runner whose \<open>initialize\<close> and \<open>cleanup\<close> succeed, with the market runner's default
  interval.\<close>

definition example_env :: runner_env where
  "example_env = \<lparr>scan_interval = 30, initialize_raises = None, cleanup_raises = None\<rparr>"


section \<open>Properties of the Persistence Consumer\<close>

lemmas example_defs = example_deployment_def ascii_decode_def example_loads_def whale_body_def
  whale_json_def no_symbol_body_def no_symbol_json_def no_type_body_def no_type_json_def
  whale_row_def idle_def

lemmas eval_defs = try_block_def required_fields_def build_insert_def and_then_def
  on_message_def handlers_def

lemma py_all_in_obj: "py_all_in ks (JObj kvs) = Inr (\<forall>k\<in>set ks. k \<in> set (map fst kvs))"
  by (induction ks) (auto split: bool.splits)

lemma py_all_in_cases:
  "py_all_in ks payload = Inl TypeError \<or> py_all_in ks payload = Inr True \<or> py_all_in ks payload = Inr False"
proof (induction ks)
  case Nil
  then show ?case by simp
next
  case (Cons k ks)
  then show ?case by (cases payload) (auto split: sum.splits bool.splits)
qed

lemma build_insert_not_obj: "(\<forall>kvs. payload \<noteq> JObj kvs) \<Longrightarrow> build_insert payload = Inl TypeError"
  by (cases payload) (simp_all add: build_insert_def and_then_def)

lemma try_block_malformed:
  assumes "utf8_decode dep (body d) = Some s" and "json_loads dep s = Some payload"
    and "\<exists>k\<in>set required_fields. \<not> has_field payload k"
  shows "try_block dep d tbl = Inl TypeError \<or> try_block dep d tbl = Inr (tbl, [WARNING])"
proof (cases "\<exists>kvs. payload = JObj kvs")
  case True
  then obtain kvs where kvs: "payload = JObj kvs" by blast
  with assms(3) have "py_all_in required_fields payload = Inr False"
    by (auto simp: py_all_in_obj has_field_def)
  with assms(1,2) show ?thesis by (simp add: try_block_def)
next
  case False
  then have b: "build_insert payload = Inl TypeError" by (simp add: build_insert_not_obj)
  from py_all_in_cases [of required_fields payload] assms(1,2) b show ?thesis
    by (auto simp: try_block_def)
qed

lemma on_message_caught:
  assumes "try_block dep d (table st) = Inl e" and "is_Exception e" and "e \<noteq> JSONDecodeError"
  shows "on_message dep d st = (None, st\<lparr>acks := acks st @ [(tag d, Ack)], logs := logs st @ [ERROR]\<rparr>)"
  using assms by (simp add: on_message_def handlers_def)

lemma on_message_returns:
  assumes "try_block dep d (table st) = Inr (tbl', lg)"
  shows "on_message dep d st = (None, st\<lparr>table := tbl', acks := acks st @ [(tag d, Ack)], logs := logs st @ lg\<rparr>)"
  using assms by (simp add: on_message_def handlers_def)

text \<open>C4. A payload that lacks one of \<open>id\<close>, \<open>scout_name\<close>, \<open>symbol\<close>, \<open>timestamp\<close>
  (or is no dict at all) is acknowledged, leaves the table as it was, and lets no exception
  out of \<open>on_message\<close>, so the deliveries after it are consumed as usual.\<close>

theorem malformed_ack:
  assumes "utf8_decode dep (body d) = Some s" and "json_loads dep s = Some payload"
    and "\<exists>k\<in>set required_fields. \<not> has_field payload k"
  shows "(\<exists>lvl. on_message dep d st =
            (None, st\<lparr>acks := acks st @ [(tag d, Ack)], logs := logs st @ [lvl]\<rparr>))
       \<and> table (snd (on_message dep d st)) = table st
       \<and> consume dep (d # ds) st = consume dep ds (snd (on_message dep d st))"
proof -
  from try_block_malformed [OF assms, of "table st"]
  have "\<exists>lvl. on_message dep d st =
            (None, st\<lparr>acks := acks st @ [(tag d, Ack)], logs := logs st @ [lvl]\<rparr>)"
  proof
    assume "try_block dep d (table st) = Inl TypeError"
    then show ?thesis using on_message_caught [of dep d st TypeError] by auto
  next
    assume "try_block dep d (table st) = Inr (table st, [WARNING])"
    then show ?thesis using on_message_returns [of dep d st "table st" "[WARNING]"] by auto
  qed
  then obtain lvl where "on_message dep d st =
            (None, st\<lparr>acks := acks st @ [(tag d, Ack)], logs := logs st @ [lvl]\<rparr>)" by blast
  then show ?thesis by auto
qed

text \<open>The spec's scenario for C4: a payload without \<open>symbol\<close> is acknowledged with a
  warning and no row, and the valid message after it is stored.\<close>

theorem malformed_ack_witness:
  "utf8_decode example_deployment (body \<lparr>tag = 7, body = no_symbol_body, fault = NoFault\<rparr>) = Some no_symbol_body
   \<and> json_loads example_deployment no_symbol_body = Some no_symbol_json
   \<and> \<not> has_field no_symbol_json ''symbol''
   \<and> on_message example_deployment \<lparr>tag = 7, body = no_symbol_body, fault = NoFault\<rparr> idle =
        (None, idle\<lparr>acks := [(7, Ack)], logs := [WARNING]\<rparr>)
   \<and> consume example_deployment
        [\<lparr>tag = 7, body = no_symbol_body, fault = NoFault\<rparr>, \<lparr>tag = 8, body = whale_body, fault = NoFault\<rparr>] idle =
        (None, idle\<lparr>table := [whale_row], acks := [(7, Ack), (8, Ack)], logs := [WARNING, DEBUG]\<rparr>)"
proof -
  let ?d = "\<lparr>tag = 7, body = no_symbol_body, fault = NoFault\<rparr>"
  have h1: "utf8_decode example_deployment (body ?d) = Some no_symbol_body"
    by (simp add: example_defs)
  have h2: "json_loads example_deployment no_symbol_body = Some no_symbol_json"
    by (simp add: example_defs)
  have h3: "\<exists>k\<in>set required_fields. \<not> has_field no_symbol_json k"
    by (simp add: required_fields_def has_field_def no_symbol_json_def)
  have e: "on_message example_deployment ?d idle = (None, idle\<lparr>acks := [(7, Ack)], logs := [WARNING]\<rparr>)"
    by (simp add: example_defs eval_defs)
  have n: "on_message example_deployment \<lparr>tag = 8, body = whale_body, fault = NoFault\<rparr>
             (idle\<lparr>acks := [(7, Ack)], logs := [WARNING]\<rparr>) =
           (None, idle\<lparr>table := [whale_row], acks := [(7, Ack), (8, Ack)], logs := [WARNING, DEBUG]\<rparr>)"
    by (simp add: example_defs eval_defs)
  from malformed_ack [OF h1 h2 h3, of idle "[\<lparr>tag = 8, body = whale_body, fault = NoFault\<rparr>]"]
  show ?thesis using h1 h2 e n by (simp add: has_field_def no_symbol_json_def)
qed

lemma getitem_obj_present:
  "k \<in> set (map fst kvs) \<Longrightarrow> \<exists>v. py_getitem (JObj kvs) k = Inr v"
  by (cases "map_of kvs k") (auto simp: map_of_eq_None_iff)

lemma getitem_obj_absent:
  "k \<notin> set (map fst kvs) \<Longrightarrow> py_getitem (JObj kvs) k = Inl (KeyError k)"
proof -
  assume "k \<notin> set (map fst kvs)"
  then have "map_of kvs k = None" by (simp add: map_of_eq_None_iff)
  then show ?thesis by simp
qed

lemma build_insert_KeyError:
  assumes "\<forall>k\<in>set required_fields. k \<in> set (map fst kvs)"
    and "\<exists>k\<in>set [''signal_type'', ''confidence'', ''data'']. k \<notin> set (map fst kvs)"
  shows "\<exists>k\<in>set [''signal_type'', ''confidence'', ''data'']. build_insert (JObj kvs) = Inl (KeyError k)"
proof -
  from assms(1) obtain v1 v2 v4 v7 where
    g: "py_getitem (JObj kvs) ''id'' = Inr v1" "py_getitem (JObj kvs) ''scout_name'' = Inr v2"
       "py_getitem (JObj kvs) ''symbol'' = Inr v4" "py_getitem (JObj kvs) ''timestamp'' = Inr v7"
    using getitem_obj_present [of _ kvs] unfolding required_fields_def
    by (metis list.set_intros(1) list.set_intros(2))
  show ?thesis
  proof (cases "''signal_type'' \<in> set (map fst kvs)")
    case False
    from getitem_obj_absent [OF this] g show ?thesis
      by (simp add: build_insert_def and_then_def del: py_getitem.simps)
  next
    case t: True
    then obtain v3 where v3: "py_getitem (JObj kvs) ''signal_type'' = Inr v3"
      using getitem_obj_present by blast
    show ?thesis
    proof (cases "''confidence'' \<in> set (map fst kvs)")
      case False
      from getitem_obj_absent [OF this] g v3 show ?thesis
        by (simp add: build_insert_def and_then_def del: py_getitem.simps)
    next
      case c: True
      then obtain v5 where v5: "py_getitem (JObj kvs) ''confidence'' = Inr v5"
        using getitem_obj_present by blast
      from assms(2) t c have "''data'' \<notin> set (map fst kvs)" by auto
      from getitem_obj_absent [OF this] g v3 v5 show ?thesis
        by (simp add: build_insert_def and_then_def del: py_getitem.simps)
    qed
  qed
qed

text \<open>C9. A dict that has the four validated fields but lacks \<open>signal_type\<close>,
  \<open>confidence\<close> or \<open>data\<close> passes validation, raises \<open>KeyError\<close> for the first
  missing one while the insert is built, and is caught by the generic handler: the
  message is acknowledged, an error is logged, and no row is stored.\<close>

theorem incomplete_payload_dropped:
  assumes "utf8_decode dep (body d) = Some s" and "json_loads dep s = Some (JObj kvs)"
    and "\<forall>k\<in>set required_fields. k \<in> set (map fst kvs)"
    and "\<exists>k\<in>set [''signal_type'', ''confidence'', ''data'']. k \<notin> set (map fst kvs)"
  shows "py_all_in required_fields (JObj kvs) = Inr True
       \<and> (\<exists>k\<in>set [''signal_type'', ''confidence'', ''data''].
             build_insert (JObj kvs) = Inl (KeyError k)
           \<and> try_block dep d (table st) = Inl (KeyError k))
       \<and> on_message dep d st =
           (None, st\<lparr>acks := acks st @ [(tag d, Ack)], logs := logs st @ [ERROR]\<rparr>)"
proof -
  have v: "py_all_in required_fields (JObj kvs) = Inr True"
    using assms(3) by (simp add: py_all_in_obj)
  from build_insert_KeyError [OF assms(3,4)] obtain k
    where k: "k \<in> set [''signal_type'', ''confidence'', ''data'']"
      and b: "build_insert (JObj kvs) = Inl (KeyError k)" by blast
  have t: "try_block dep d (table st) = Inl (KeyError k)"
    using assms(1,2) v b by (simp add: try_block_def)
  have "on_message dep d st =
           (None, st\<lparr>acks := acks st @ [(tag d, Ack)], logs := logs st @ [ERROR]\<rparr>)"
    using on_message_caught [OF t] by simp
  with v k b t show ?thesis by blast
qed

text \<open>C9 at a payload with the four validated fields only.\<close>

theorem incomplete_payload_dropped_witness:
  "on_message example_deployment \<lparr>tag = 3, body = no_type_body, fault = NoFault\<rparr> idle =
        (None, idle\<lparr>acks := [(3, Ack)], logs := [ERROR]\<rparr>)
   \<and> build_insert no_type_json = Inl (KeyError ''signal_type'')"
proof -
  let ?d = "\<lparr>tag = 3, body = no_type_body, fault = NoFault\<rparr>"
  let ?kvs = "[(''id'', JStr ''a3''), (''scout_name'', JStr ''ChainScout''),
     (''symbol'', JStr ''BSC''), (''timestamp'', JStr ''2024-01-01T00:00:00'')]"
  have h1: "utf8_decode example_deployment (body ?d) = Some no_type_body"
    by (simp add: example_defs)
  have h2: "json_loads example_deployment no_type_body = Some (JObj ?kvs)"
    by (simp add: example_defs)
  have h3: "\<forall>k\<in>set required_fields. k \<in> set (map fst ?kvs)"
    by (simp add: required_fields_def)
  have h4: "\<exists>k\<in>set [''signal_type'', ''confidence'', ''data'']. k \<notin> set (map fst ?kvs)"
    by simp
  have b: "build_insert no_type_json = Inl (KeyError ''signal_type'')"
    by (simp add: no_type_json_def build_insert_def and_then_def)
  from incomplete_payload_dropped [OF h1 h2 h3 h4, of idle] b
  show ?thesis by (simp add: idle_def)
qed

text \<open>C10. A body that is not valid JSON, because its bytes do not decode
  (\<open>UnicodeDecodeError\<close>, caught by the generic handler) or because the decoded text does
  not parse (\<open>JSONDecodeError\<close>, caught by its own handler), is acknowledged with an error
  logged; the table is as it was, and the deliveries after it are consumed as usual.\<close>

theorem invalid_json_acked:
  assumes "not_valid_json dep (body d)"
  shows "try_block dep d (table st) =
           Inl (if utf8_decode dep (body d) = None then UnicodeDecodeError else JSONDecodeError)
       \<and> on_message dep d st =
           (None, st\<lparr>acks := acks st @ [(tag d, Ack)], logs := logs st @ [ERROR]\<rparr>)
       \<and> table (snd (on_message dep d st)) = table st
       \<and> consume dep (d # ds) st = consume dep ds (snd (on_message dep d st))"
proof (cases "utf8_decode dep (body d)")
  case None
  then show ?thesis by (simp add: try_block_def on_message_def handlers_def)
next
  case (Some s)
  with assms have "json_loads dep s = None" by (simp add: not_valid_json_def)
  with Some show ?thesis by (simp add: try_block_def on_message_def handlers_def)
qed

text \<open>C10 at the body \<open>not json\<close>, which decodes and does not parse, and at the byte
  \<open>0xFF\<close>, which does not decode; the valid message after each is stored.\<close>

theorem invalid_json_acked_witness:
  "not_valid_json example_deployment ''not json''
   \<and> not_valid_json example_deployment bad_utf8_body
   \<and> try_block example_deployment \<lparr>tag = 4, body = ''not json'', fault = NoFault\<rparr> [] =
        Inl JSONDecodeError
   \<and> try_block example_deployment \<lparr>tag = 6, body = bad_utf8_body, fault = NoFault\<rparr> [] =
        Inl UnicodeDecodeError
   \<and> on_message example_deployment \<lparr>tag = 4, body = ''not json'', fault = NoFault\<rparr> idle =
        (None, idle\<lparr>acks := [(4, Ack)], logs := [ERROR]\<rparr>)
   \<and> on_message example_deployment \<lparr>tag = 6, body = bad_utf8_body, fault = NoFault\<rparr> idle =
        (None, idle\<lparr>acks := [(6, Ack)], logs := [ERROR]\<rparr>)
   \<and> consume example_deployment
        [\<lparr>tag = 6, body = bad_utf8_body, fault = NoFault\<rparr>,
         \<lparr>tag = 8, body = whale_body, fault = NoFault\<rparr>] idle =
        (None, idle\<lparr>table := [whale_row], acks := [(6, Ack), (8, Ack)], logs := [ERROR, DEBUG]\<rparr>)"
proof -
  let ?j = "\<lparr>tag = 4, body = ''not json'', fault = NoFault\<rparr>"
  let ?u = "\<lparr>tag = 6, body = bad_utf8_body, fault = NoFault\<rparr>"
  let ?w = "\<lparr>tag = 8, body = whale_body, fault = NoFault\<rparr>"
  have d1: "utf8_decode example_deployment ''not json'' = Some ''not json''"
    by (simp add: example_defs)
  have d2: "utf8_decode example_deployment bad_utf8_body = None"
    by (simp add: example_defs bad_utf8_body_def)
  have h1: "not_valid_json example_deployment (body ?j)"
    by (simp add: not_valid_json_def example_defs)
  have h2: "not_valid_json example_deployment (body ?u)"
    by (simp add: not_valid_json_def d2)
  have n: "on_message example_deployment ?w (idle\<lparr>acks := [(6, Ack)], logs := [ERROR]\<rparr>) =
        (None, idle\<lparr>table := [whale_row], acks := [(6, Ack), (8, Ack)], logs := [ERROR, DEBUG]\<rparr>)"
    by (simp add: example_defs eval_defs)
  from invalid_json_acked [OF h1, of idle "[]"] invalid_json_acked [OF h2, of idle "[?w]"]
       h1 h2 d1 d2 n
  show ?thesis by (simp add: idle_def)
qed

text \<open>C1, as the code has it. A message that decodes and passes validation, and whose insert
  raises an \<open>Exception\<close> in the storage layer, is caught by the generic handler, which
  passes: the message is acknowledged all the same, an error is logged and no row is stored.
  The comment in that handler says that the message is acknowledged on purpose, for now, to
  avoid an endless redelivery loop.\<close>

theorem storage_error_acked:
  assumes "utf8_decode dep (body d) = Some s" and "json_loads dep s = Some payload"
    and "py_all_in required_fields payload = Inr True"
    and "build_insert payload = Inr stmt"
    and "db_insert (id_unique dep) (fault d) (table st) stmt = Inl e"
    and "is_Exception e"
  shows "on_message dep d st =
           (None, st\<lparr>acks := acks st @ [(tag d, Ack)], logs := logs st @ [ERROR]\<rparr>)
       \<and> table (snd (on_message dep d st)) = table st"
  using assms by (simp add: try_block_def on_message_def handlers_def)

text \<open>C1 as amended, at a complete signal whose \<open>execute\<close> raises \<open>OperationalError\<close>.\<close>

theorem storage_error_acked_witness:
  "db_insert True (ExecuteFails OperationalError) [] whale_row = Inl OperationalError
   \<and> on_message example_deployment \<lparr>tag = 5, body = whale_body, fault = ExecuteFails OperationalError\<rparr> idle =
        (None, idle\<lparr>acks := [(5, Ack)], logs := [ERROR]\<rparr>)"
proof -
  let ?d = "\<lparr>tag = 5, body = whale_body, fault = ExecuteFails OperationalError\<rparr>"
  have h1: "utf8_decode example_deployment (body ?d) = Some whale_body"
    by (simp add: example_defs)
  have h2: "json_loads example_deployment whale_body = Some whale_json"
    by (simp add: example_defs)
  have h3: "py_all_in required_fields whale_json = Inr True"
    by (simp add: required_fields_def whale_json_def)
  have h4: "build_insert whale_json = Inr whale_row"
    by (simp add: whale_json_def whale_row_def build_insert_def and_then_def)
  have h5: "db_insert (id_unique example_deployment) (fault ?d) (table idle) whale_row = Inl OperationalError"
    by (simp add: example_deployment_def)
  have h6: "is_Exception OperationalError" by simp
  from storage_error_acked [OF h1 h2 h3 h4 h5 h6]
  show ?thesis by (simp add: idle_def)
qed

text \<open>C1 as stated fails: the insert of this valid message raises \<open>OperationalError\<close>, and
  the message is acknowledged, not left unacked.\<close>

theorem storage_error_not_left_unacked:
  "try_block example_deployment \<lparr>tag = 5, body = whale_body, fault = ExecuteFails OperationalError\<rparr> [] = Inl OperationalError
   \<and> acks (snd (on_message example_deployment
        \<lparr>tag = 5, body = whale_body, fault = ExecuteFails OperationalError\<rparr> idle)) = [(5, Ack)]"
  by (simp add: example_defs eval_defs)

lemma db_insert_stored:
  "db_insert u f tbl r = Inr tbl' \<Longrightarrow> f = NoFault \<and> tbl' = tbl @ [r]"
  by (cases f) (auto split: if_splits)

lemma db_insert_duplicate:
  "\<exists>e. db_insert True f (tbl @ [r]) r = Inl e"
  by (cases f) auto

lemma on_message_raise_keeps_table:
  "try_block dep d (table st) = Inl e \<Longrightarrow> table (snd (on_message dep d st)) = table st"
  by (auto simp: on_message_def handlers_def split: option.splits)

text \<open>On a table with a unique key on \<open>id\<close>, once a delivery has stored its row, a
  redelivery of the same body raises in the storage layer, whatever the storage layer does
  then, and the table stays as the first delivery left it.\<close>

lemma redelivery_leaves_table:
  assumes "id_unique dep" and "try_block dep d (table st) = Inr (tbl', [DEBUG])"
    and "body d' = body d" and "table st' = tbl'"
  shows "(\<exists>e. try_block dep d' (table st') = Inl e)
       \<and> table (snd (on_message dep d' st')) = tbl'"
proof -
  from assms(2) obtain s payload stmt where
    s: "utf8_decode dep (body d) = Some s" and p: "json_loads dep s = Some payload"
    and v: "py_all_in required_fields payload = Inr True"
    and b: "build_insert payload = Inr stmt"
    and i: "db_insert (id_unique dep) (fault d) (table st) stmt = Inr tbl'"
    by (auto simp: try_block_def split: option.splits sum.splits bool.splits)
  from db_insert_stored [OF i] have t: "tbl' = table st @ [stmt]" by simp
  from db_insert_duplicate [of "fault d'" "table st" stmt] obtain e
    where "db_insert True (fault d') (table st @ [stmt]) stmt = Inl e" by blast
  with s p v b t assms(1,3,4) have e: "try_block dep d' (table st') = Inl e"
    by (simp add: try_block_def)
  from on_message_raise_keeps_table [OF e] e assms(4) show ?thesis by auto
qed

text \<open>C2. The same complete signal delivered twice. With a unique key on \<open>id\<close> the second
  plain \<open>INSERT\<close> raises \<open>IntegrityError\<close> and the consumer logs an error (the table
  keeps its one row); without the key the table gets a second row of that id. In neither
  case is the second insert a silent no-op.\<close>

theorem duplicate_insert_is_an_error:
  "consume example_deployment
     [\<lparr>tag = 1, body = whale_body, fault = NoFault\<rparr>, \<lparr>tag = 1, body = whale_body, fault = NoFault\<rparr>] idle =
     (None, idle\<lparr>table := [whale_row], acks := [(1, Ack), (1, Ack)], logs := [DEBUG, ERROR]\<rparr>)
   \<and> try_block example_deployment \<lparr>tag = 1, body = whale_body, fault = NoFault\<rparr> [whale_row] = Inl IntegrityError
   \<and> table (snd (consume (example_deployment\<lparr>id_unique := False\<rparr>)
       [\<lparr>tag = 1, body = whale_body, fault = NoFault\<rparr>, \<lparr>tag = 1, body = whale_body, fault = NoFault\<rparr>] idle)) =
       [whale_row, whale_row]"
  by (simp add: example_defs eval_defs)














section \<open>Properties of the scout runners\<close>

lemma scan_loop_no_cleanup: "scan_loop n its = (r, tr) \<Longrightarrow> count_list tr Cleanup = 0"
proof (induction n its arbitrary: r tr rule: scan_loop.induct)
  case (5 n opps its)
  then show ?case by (auto split: prod.splits)
qed auto

lemma scan_loop_completes:
  "scan_loop n (map Completes oss @ its) =
     (fst (scan_loop n its),
      concat (map (\<lambda>opps. [Scan, Publish opps, Sleep n]) oss) @ snd (scan_loop n its))"
  by (induction oss) (auto split: prod.splits)

text \<open>C8. When \<open>initialize\<close> has succeeded and an exception of any kind leaves the scan
  loop (out of \<open>scan\<close>, \<open>publish_opportunities\<close> or the sleep; an \<open>Exception\<close>,
  \<open>KeyboardInterrupt\<close> or a cancellation), \<open>main\<close> ends, and \<open>cleanup\<close> is called
  exactly once, as the last call. While the loop is going, \<open>cleanup\<close> has not been called.\<close>

theorem cleanup_exactly_once:
  assumes "initialize_raises env = None"
  shows "(\<forall>e. fst (scan_loop (scan_interval env) its) = Some e \<longrightarrow>
            fst (main env its) \<noteq> Looping
          \<and> count_list (snd (main env its)) Cleanup = 1
          \<and> last (snd (main env its)) = Cleanup)
       \<and> (fst (scan_loop (scan_interval env) its) = None \<longrightarrow>
            fst (main env its) = Looping
          \<and> count_list (snd (main env its)) Cleanup = 0)"
proof (cases "scan_loop (scan_interval env) its")
  case (Pair r tr)
  from scan_loop_no_cleanup [OF Pair] have c: "count_list tr Cleanup = 0" .
  show ?thesis
  proof (cases r)
    case None
    with Pair c assms show ?thesis by (simp add: main_def)
  next
    case (Some e)
    with Pair c assms show ?thesis
      by (cases "cleanup_raises env") (simp_all add: main_def Let_def)
  qed
qed

text \<open>C8 at a runner cancelled during its second sleep, and at one still looping.\<close>

theorem cleanup_exactly_once_witness:
  "main example_env [Completes [''s1''], SleepRaises [] CancelledError] =
     (Raised CancelledError,
      [Initialize, Scan, Publish [''s1''], Sleep 30, Scan, Publish [], Sleep 30, Cleanup])
   \<and> count_list (snd (main example_env [Completes [''s1''], SleepRaises [] CancelledError])) Cleanup = 1
   \<and> count_list (snd (main example_env [Completes [''s1''], Completes []])) Cleanup = 0"
proof -
  have h: "initialize_raises example_env = None" by (simp add: example_env_def)
  have m: "main example_env [Completes [''s1''], SleepRaises [] CancelledError] =
     (Raised CancelledError,
      [Initialize, Scan, Publish [''s1''], Sleep 30, Scan, Publish [], Sleep 30, Cleanup])"
    by (simp add: main_def example_env_def)
  have s1: "fst (scan_loop (scan_interval example_env) [Completes [''s1''], SleepRaises [] CancelledError])
              = Some CancelledError"
    by (simp add: example_env_def)
  have s2: "fst (scan_loop (scan_interval example_env) [Completes [''s1''], Completes ([]::string list)]) = None"
    by (simp add: example_env_def)
  from cleanup_exactly_once [OF h, of "[Completes [''s1''], SleepRaises [] CancelledError]"]
       cleanup_exactly_once [OF h, of "[Completes [''s1''], Completes []]"] m s1 s2
  show ?thesis by simp
qed

text \<open>C3, as the code has it. The loop catches \<open>KeyboardInterrupt\<close> only. Any other
  exception out of \<open>scan\<close> ends the loop: \<open>cleanup\<close> runs, the exception leaves
  \<open>main\<close>, and no further scan is made, whatever the scout would have done next.\<close>

theorem scan_exception_ends_runner:
  assumes "initialize_raises env = None" and "cleanup_raises env = None"
    and "e \<noteq> KeyboardInterrupt"
  shows "main env (map Completes oss @ ScanRaises e # rest) =
           (Raised e,
            Initialize # concat (map (\<lambda>opps. [Scan, Publish opps, Sleep (scan_interval env)]) oss)
              @ [Scan, Cleanup])"
  using assms by (simp add: main_def scan_loop_completes)

text \<open>C3 as amended, at a scan that raises in the second pass.\<close>

theorem scan_exception_ends_runner_witness:
  "main example_env (map Completes [[''s1'']] @ ScanRaises (RuntimeError ''network down'') # [Completes [''s2'']]) =
     (Raised (RuntimeError ''network down''),
      [Initialize, Scan, Publish [''s1''], Sleep 30, Scan, Cleanup])"
proof -
  have h1: "initialize_raises example_env = None" by (simp add: example_env_def)
  have h2: "cleanup_raises example_env = None" by (simp add: example_env_def)
  have h3: "RuntimeError ''network down'' \<noteq> KeyboardInterrupt" by simp
  from scan_exception_ends_runner [OF h1 h2 h3, of "[[''s1'']]" "[Completes [''s2'']]"]
  show ?thesis by (simp add: example_env_def)
qed

text \<open>C3 as stated fails: the first scan raises \<open>RuntimeError\<close>, the runner ends with that
  exception after one scan and the cleanup, and the pass that would have completed next
  never happens.\<close>

theorem scan_exception_stops_loop:
  "main example_env [ScanRaises (RuntimeError ''network down''), Completes [''s2'']] =
     (Raised (RuntimeError ''network down''), [Initialize, Scan, Cleanup])"
  by (simp add: main_def example_env_def)

section \<open>Properties of \<open>ContractScout.scan\<close>\<close>

lemma analyze_body_addresses:
  "analyze_body (sc\<lparr>addresses := l\<rparr>) a = analyze_body sc a"
  by (simp add: analyze_body_def fetch_goplus_def fetch_etherscan_source_def Let_def
           cong: if_cong)

lemma analyze_address_addresses [simp]:
  "analyze_address (sc\<lparr>addresses := l\<rparr>) a = analyze_address sc a"
  by (simp add: analyze_address_def analyze_body_addresses)









section \<open>Properties of the signal factory\<close>

text \<open>C5. The confidence of a created signal lies between 0 and 1 and is the input when the
  input does; the inputs -0.5 and 1.7 give 0 and 1.\<close>

theorem confidence_clamped:
  "0 \<le> confidence (create_opportunity st ty subject c payload minutes)
   \<and> confidence (create_opportunity st ty subject c payload minutes) \<le> 1
   \<and> (0 \<le> c \<and> c \<le> 1 \<longrightarrow> confidence (create_opportunity st ty subject c payload minutes) = c)
   \<and> confidence (create_opportunity st ty subject (- 0.5) payload minutes) = 0
   \<and> confidence (create_opportunity st ty subject 1.7 payload minutes) = 1"
  by (simp add: create_opportunity_def)

text \<open>C5 at the confidence 0.8, which is kept.\<close>

theorem confidence_clamped_witness:
  "confidence (create_opportunity \<lparr>fresh_id = ''a1'', producer = ''ChainScout'', created = 0\<rparr>
      ''whale_movement'' ''BSC'' 0.8 (JObj []) (Some 5)) = 0.8"
  using confidence_clamped [of "\<lparr>fresh_id = ''a1'', producer = ''ChainScout'', created = 0\<rparr>"
      "''whale_movement''" "''BSC''" "0.8" "JObj []" "Some 5"]
  by simp

end
